theory Spec2Isabelle
  imports Complex_Main
begin

section \<open>The alert-to-order pipeline of the TradingView alert bridge\<close>

text \<open>
  A shallow embedding of \<^verbatim>\<open>backend/app/main.py\<close> (\<^verbatim>\<open>get_exchange_client\<close>,
  \<^verbatim>\<open>process_tradingview_alert\<close>), \<^verbatim>\<open>backend/app/database.py\<close> (the Redis keys and the
  lookups and writes the pipeline performs) and \<^verbatim>\<open>backend/app/models.py\<close> (the fields
  the pipeline reads and writes).

  Modelling conventions.
  \<^item> Python \<^verbatim>\<open>float\<close> values are modelled as rationals: finite values with exact
    arithmetic. Rounding, infinities and NaN are outside the model. Division by zero
    raises \<^verbatim>\<open>ZeroDivisionError\<close> and is written out.
  \<^item> \<^verbatim>\<open>Optional[float]\<close> is \<open>rat option\<close>; the source tests such values by Python
    truthiness (\<^verbatim>\<open>if alert.price\<close>, \<^verbatim>\<open>if not quantity\<close>), which holds for a value that
    is present and nonzero.
  \<^item> An exception is a value: \<open>HTTPException status detail\<close> for the ones the handler
    raises itself, \<open>Error msg\<close> for every other exception, \<open>msg\<close> being \<^verbatim>\<open>str(e)\<close>.
  \<^item> Redis is modelled as three maps from the full key string to the decoded value
    (configurations, API keys, history). Redis itself is taken to be reachable: the
    reads and writes of \<^verbatim>\<open>database.py\<close> do not raise.
  \<^item> The exchange library (ccxt) is a parameter: a record of response functions. Each
    response may depend on the calls made so far, which the state logs in order.
  \<^item> \<^verbatim>\<open>datetime.now()\<close> is read once per invocation of the handler; its value, as
    the text \<^verbatim>\<open>isoformat()\<close> yields, is an argument of the handler.
\<close>

subsection \<open>Exceptions\<close>

datatype exn =
    HTTPException nat string
  | Error string

subsection \<open>Data model (models.py)\<close>

text \<open>
  A stored configuration as \<^verbatim>\<open>save_alert_config\<close> writes it from
  \<^verbatim>\<open>AlertConfigModel.dict()\<close>: every key is present, optional ones may hold \<^verbatim>\<open>None\<close>.
  \<open>order_type\<close> and \<open>position_side\<close> are read back from JSON as plain strings.
\<close>

record config =
  name :: string
  exchange :: string
  symbol :: string
  order_type :: string
  position_side :: string
  quantity :: "rat option"
  quantity_percentage :: "rat option"
  price :: "rat option"
  stop_loss :: "rat option"
  take_profit :: "rat option"
  description :: "string option"

text \<open>\<^verbatim>\<open>TradingViewAlertModel\<close>: the fields the pipeline reads, and the remaining
  optional ones that it ignores.\<close>

record alert =
  config_name :: string
  user_id :: string
  alert_price :: "rat option"
  alert_volume :: "rat option"
  alert_time :: "string option"
  alert_exchange :: "string option"
  alert_symbol :: "string option"
  alert_message :: "string option"

text \<open>What \<^verbatim>\<open>get_exchange_api_key\<close> returns when the key exists: both fields, decrypted.\<close>

record credentials =
  api_key :: string
  api_secret :: string

text \<open>
  A client handle. The source constructs it from the exchange class and a dict with
  \<^verbatim>\<open>apiKey\<close>, \<^verbatim>\<open>secret\<close>, \<^verbatim>\<open>enableRateLimit\<close>. \<open>client_id\<close> is the object's identity:
  the number of clients constructed before it.
\<close>

record client =
  client_id :: nat
  client_exchange :: string
  apiKey :: string
  secret :: string
  enableRateLimit :: bool

text \<open>An exchange order receipt: the dict \<^verbatim>\<open>create_order\<close> returns, as an association
  list of its string entries.\<close>

type_synonym receipt = "(string \<times> string) list"

text \<open>The arguments of one \<^verbatim>\<open>create_order\<close> call. \<open>o_price\<close> is \<open>None\<close> when the
  keyword is not passed; \<open>o_params\<close> is \<open>None\<close> when \<^verbatim>\<open>params\<close> is not passed.\<close>

record order_request =
  o_symbol :: string
  o_type :: string
  o_side :: string
  o_amount :: rat
  o_price :: "rat option"
  o_params :: "(string \<times> rat) list option"

datatype call =
    FetchBalance nat
  | FetchTicker nat string
  | CreateOrder nat order_request

text \<open>\<^verbatim>\<open>OrderResultModel\<close>.\<close>

record order_result =
  success :: bool
  order_id :: "string option"
  message :: "string option"
  details :: "receipt option"
  timestamp :: string

text \<open>The two dicts the handler passes to \<^verbatim>\<open>save_alert_history\<close>: the success record
  (nine keys) and the failure record (four keys).\<close>

record success_history =
  h_config_name :: string
  h_symbol :: string
  h_side :: string
  h_quantity :: rat
  h_price :: "rat option"
  h_timestamp :: string
  h_success :: bool
  h_order_id :: "string option"
  h_details :: "receipt option"

record failure_history =
  f_config_name :: string
  f_timestamp :: string
  f_success :: bool
  f_message :: "string option"

datatype history_data =
    SuccessRecord success_history
  | FailureRecord failure_history

subsection \<open>State and environment\<close>

text \<open>
  The mutable state: the three Redis key spaces, the module-level dict
  \<^verbatim>\<open>exchange_clients\<close>, the number of clients constructed so far, and the log of calls
  made on exchange clients (oldest first). An entry \<open>Inl msg\<close> of \<open>api_keys\<close> is a
  stored value that \<^verbatim>\<open>get_exchange_api_key\<close> cannot decode or decrypt: reading it raises
  an exception with text \<open>msg\<close> (the encryption key defaults to a fresh one per process).
\<close>

record world =
  configs :: "string \<rightharpoonup> config"
  api_keys :: "string \<rightharpoonup> string + credentials"
  history :: "string \<rightharpoonup> history_data"
  exchange_clients :: "string \<rightharpoonup> client"
  constructed :: nat
  calls :: "call list"

text \<open>
  The exchange library. \<open>exchange_class nm creds\<close> is \<open>Some msg\<close> when
  \<^verbatim>\<open>getattr(ccxt, nm)\<close> or the constructor call raises an exception with text \<open>msg\<close>.
  \<open>fetch_balance\<close> yields the balance dict, each currency mapped to what its
  \<^verbatim>\<open>'free'\<close> entry holds (\<open>None\<close> for Python's \<^verbatim>\<open>None\<close>); \<open>fetch_ticker\<close> yields what
  the ticker's \<^verbatim>\<open>'last'\<close> entry holds. \<open>Inl msg\<close> is a raised exception.
\<close>

record ccxt =
  exchange_class :: "string \<Rightarrow> credentials \<Rightarrow> string option"
  fetch_balance :: "call list \<Rightarrow> client \<Rightarrow> string + (string \<rightharpoonup> rat option)"
  fetch_ticker :: "call list \<Rightarrow> client \<Rightarrow> string \<Rightarrow> string + rat option"
  create_order :: "call list \<Rightarrow> client \<Rightarrow> order_request \<Rightarrow> string + receipt"

subsection \<open>Python primitives\<close>

text \<open>The character \<^verbatim>\<open>'\<close>, which a string literal of HOL cannot hold.\<close>

definition apostrophe :: string where
  "apostrophe = [CHR 0x27]"

text \<open>Truthiness of an \<^verbatim>\<open>Optional[float]\<close>.\<close>

fun truthy :: "rat option \<Rightarrow> bool" where
  "truthy None = False"
| "truthy (Some x) = (x \<noteq> 0)"

text \<open>\<^verbatim>\<open>s.split(c)\<close> for a one-character separator: never empty, one more piece than
  there are separators.\<close>

fun split :: "char \<Rightarrow> string \<Rightarrow> string list" where
  "split c [] = [[]]"
| "split c (x # xs) =
     (if x = c then [] # split c xs
      else (case split c xs of [] \<Rightarrow> [[x]] | w # ws \<Rightarrow> (x # w) # ws))"

text \<open>\<^verbatim>\<open>float(v)\<close> on a value that is a number or \<^verbatim>\<open>None\<close>.\<close>

definition float :: "rat option \<Rightarrow> exn + rat" where
  "float v = (case v of
      None \<Rightarrow> Inl (Error (''float() argument must be a string or a real number, not ''
                          @ apostrophe @ ''NoneType'' @ apostrophe))
    | Some x \<Rightarrow> Inr x)"

subsection \<open>database.py\<close>

definition api_key_key :: "string \<Rightarrow> string \<Rightarrow> string" where
  "api_key_key uid ex = ''user:'' @ uid @ '':exchange:'' @ ex"

definition alert_config_key :: "string \<Rightarrow> string \<Rightarrow> string" where
  "alert_config_key uid cn = ''user:'' @ uid @ '':alert_config:'' @ cn"

definition alert_id :: "string \<Rightarrow> string \<Rightarrow> string" where
  "alert_id uid ts = ''alert:'' @ uid @ '':'' @ ts"

text \<open>\<^verbatim>\<open>get_exchange_api_key\<close>: \<open>Inr None\<close> is the empty dict.\<close>

definition get_exchange_api_key ::
  "world \<Rightarrow> string \<Rightarrow> string \<Rightarrow> exn + credentials option" where
  "get_exchange_api_key w uid ex =
     (case api_keys w (api_key_key uid ex) of
        None \<Rightarrow> Inr None
      | Some (Inl msg) \<Rightarrow> Inl (Error msg)
      | Some (Inr creds) \<Rightarrow> Inr (Some creds))"

text \<open>\<^verbatim>\<open>get_alert_config\<close>: \<open>None\<close> is the empty dict.\<close>

definition get_alert_config :: "world \<Rightarrow> string \<Rightarrow> string \<Rightarrow> config option" where
  "get_alert_config w uid cn = configs w (alert_config_key uid cn)"

definition history_timestamp :: "history_data \<Rightarrow> string" where
  "history_timestamp d = (case d of
      SuccessRecord s \<Rightarrow> h_timestamp s
    | FailureRecord f \<Rightarrow> f_timestamp f)"

text \<open>\<^verbatim>\<open>save_alert_history\<close>: \<^verbatim>\<open>redis_client.set\<close> overwrites what the key held.\<close>

definition save_alert_history :: "world \<Rightarrow> string \<Rightarrow> history_data \<Rightarrow> world" where
  "save_alert_history w uid alert_data =
     w\<lparr>history := (history w)(alert_id uid (history_timestamp alert_data) \<mapsto> alert_data)\<rparr>"

subsection \<open>main.py: the client cache\<close>

definition client_key :: "string \<Rightarrow> string \<Rightarrow> string" where
  "client_key uid exchange_name = uid @ '':'' @ exchange_name"

definition get_exchange_client ::
  "ccxt \<Rightarrow> world \<Rightarrow> string \<Rightarrow> string \<Rightarrow> (exn + client) \<times> world" where
  "get_exchange_client lib w uid exchange_name =
     (case exchange_clients w (client_key uid exchange_name) of
        Some c \<Rightarrow> (Inr c, w)
      | None \<Rightarrow>
         (case get_exchange_api_key w uid exchange_name of
            Inl e \<Rightarrow> (Inl e, w)
          | Inr None \<Rightarrow>
              (Inl (HTTPException 404 (''API keys not found for exchange '' @ exchange_name)), w)
          | Inr (Some creds) \<Rightarrow>
             (case exchange_class lib exchange_name creds of
                Some msg \<Rightarrow>
                  (Inl (HTTPException 500 (''Error creating exchange client: '' @ msg)), w)
              | None \<Rightarrow>
                 (let c = \<lparr>client_id = constructed w, client_exchange = exchange_name,
                            apiKey = api_key creds, secret = api_secret creds,
                            enableRateLimit = True\<rparr>
                  in (Inr c,
                      w\<lparr>exchange_clients :=
                          (exchange_clients w)(client_key uid exchange_name \<mapsto> c),
                        constructed := Suc (constructed w)\<rparr>)))))"

subsection \<open>main.py: quantity resolution (lines 177-195)\<close>

text \<open>\<^verbatim>\<open>float(exchange.fetch_ticker(symbol)['last'])\<close>: the call is logged, then answered.\<close>

definition ticker_last ::
  "ccxt \<Rightarrow> world \<Rightarrow> client \<Rightarrow> string \<Rightarrow> (exn + rat) \<times> world" where
  "ticker_last lib w ex symb =
     (let w1 = w\<lparr>calls := calls w @ [FetchTicker (client_id ex) symb]\<rparr>
      in case fetch_ticker lib (calls w) ex symb of
           Inl msg \<Rightarrow> (Inl (Error msg), w1)
         | Inr last_price \<Rightarrow> (float last_price, w1))"

text \<open>Line 190: \<^verbatim>\<open>alert.price if alert.price else float(exchange.fetch_ticker(symbol)['last'])\<close>.
  The alert's price is taken when it is truthy: present and nonzero.\<close>

definition current_price ::
  "ccxt \<Rightarrow> world \<Rightarrow> client \<Rightarrow> string \<Rightarrow> alert \<Rightarrow> (exn + rat) \<times> world" where
  "current_price lib w ex symb a =
     (case alert_price a of
        Some p \<Rightarrow> (if truthy (Some p) then (Inr p, w) else ticker_last lib w ex symb)
      | None \<Rightarrow> ticker_last lib w ex symb)"

text \<open>Lines 182-192, the branch \<^verbatim>\<open>elif config.get("quantity_percentage")\<close>; \<open>pct\<close> is
  \<^verbatim>\<open>config["quantity_percentage"]\<close>.\<close>

definition percentage_quantity ::
  "ccxt \<Rightarrow> world \<Rightarrow> client \<Rightarrow> config \<Rightarrow> alert \<Rightarrow> rat \<Rightarrow> (exn + rat) \<times> world" where
  "percentage_quantity lib w ex cfg a pct =
     (let w1 = w\<lparr>calls := calls w @ [FetchBalance (client_id ex)]\<rparr>
      in case fetch_balance lib (calls w) ex of
           Inl msg \<Rightarrow> (Inl (Error msg), w1)
         | Inr balance \<Rightarrow>
            (case split CHR ''/'' (symbol cfg) of
               _ # base_currency # _ \<Rightarrow>
                 (case balance base_currency of
                    None \<Rightarrow>
                      (Inl (HTTPException 400 (''No balance found for '' @ base_currency)), w1)
                  | Some free \<Rightarrow>
                     (case float free of
                        Inl e \<Rightarrow> (Inl e, w1)
                      | Inr available \<Rightarrow>
                         (case current_price lib w1 ex (symbol cfg) a of
                            (Inl e, w2) \<Rightarrow> (Inl e, w2)
                          | (Inr cp, w2) \<Rightarrow>
                              (if cp = 0 then (Inl (Error ''float division by zero''), w2)
                               else (Inr ((available * pct / 100) / cp), w2)))))
             | _ \<Rightarrow> (Inl (Error ''list index out of range''), w1)))"

text \<open>Lines 178-195. The intermediate \<open>rat option\<close> is the variable \<^verbatim>\<open>quantity\<close>, which
  starts as \<^verbatim>\<open>None\<close>; \<^verbatim>\<open>if not quantity\<close> rejects \<^verbatim>\<open>None\<close> and zero.\<close>

definition determine_quantity ::
  "ccxt \<Rightarrow> world \<Rightarrow> client \<Rightarrow> config \<Rightarrow> alert \<Rightarrow> (exn + rat option) \<times> world" where
  "determine_quantity lib w ex cfg a =
     (if truthy (quantity cfg) then (Inr (quantity cfg), w)
      else if truthy (quantity_percentage cfg) then
        (case quantity_percentage cfg of
           Some pct \<Rightarrow>
             (case percentage_quantity lib w ex cfg a pct of
                (Inl e, w') \<Rightarrow> (Inl e, w')
              | (Inr q, w') \<Rightarrow> (Inr (Some q), w'))
         | None \<Rightarrow> (Inr None, w))
      else (Inr None, w))"

definition resolve_quantity ::
  "ccxt \<Rightarrow> world \<Rightarrow> client \<Rightarrow> config \<Rightarrow> alert \<Rightarrow> (exn + rat) \<times> world" where
  "resolve_quantity lib w ex cfg a =
     (case determine_quantity lib w ex cfg a of
        (Inl e, w') \<Rightarrow> (Inl e, w')
      | (Inr None, w') \<Rightarrow>
          (Inl (HTTPException 400 ''Could not determine order quantity''), w')
      | (Inr (Some q), w') \<Rightarrow>
          (if \<not> truthy (Some q)
           then (Inl (HTTPException 400 ''Could not determine order quantity''), w')
           else (Inr q, w')))"

subsection \<open>main.py: order dispatch (lines 198-235)\<close>

text \<open>One \<^verbatim>\<open>exchange.create_order(...)\<close> call: logged, then answered by the library.\<close>

definition place_order ::
  "ccxt \<Rightarrow> world \<Rightarrow> client \<Rightarrow> order_request \<Rightarrow> (exn + receipt option) \<times> world" where
  "place_order lib w ex req =
     (let w1 = w\<lparr>calls := calls w @ [CreateOrder (client_id ex) req]\<rparr>
      in case create_order lib (calls w) ex req of
           Inl msg \<Rightarrow> (Inl (Error msg), w1)
         | Inr r \<Rightarrow> (Inr (Some r), w1))"

text \<open>Lines 208 and 220: \<^verbatim>\<open>alert.price if alert.price else config.get("price")\<close>.\<close>

definition order_price :: "config \<Rightarrow> alert \<Rightarrow> rat option" where
  "order_price cfg a = (if truthy (alert_price a) then alert_price a else price cfg)"

text \<open>The \<^verbatim>\<open>if\<close>/\<^verbatim>\<open>elif\<close> chain on \<^verbatim>\<open>order_type\<close>; it has no \<^verbatim>\<open>else\<close>, so
  \<^verbatim>\<open>order_result\<close> keeps its initial \<^verbatim>\<open>None\<close> for any other type. \<^verbatim>\<open>if not price\<close>
  rejects \<^verbatim>\<open>None\<close> and zero.\<close>

definition dispatch ::
  "ccxt \<Rightarrow> world \<Rightarrow> client \<Rightarrow> config \<Rightarrow> alert \<Rightarrow> string \<Rightarrow> rat
     \<Rightarrow> (exn + receipt option) \<times> world" where
  "dispatch lib w ex cfg a side qty =
     (if order_type cfg = ''market'' then
        place_order lib w ex
          \<lparr>o_symbol = symbol cfg, o_type = ''market'', o_side = side, o_amount = qty,
           o_price = None, o_params = None\<rparr>
      else if order_type cfg = ''limit'' then
        (case order_price cfg a of
           None \<Rightarrow> (Inl (HTTPException 400 ''Price required for limit orders''), w)
         | Some p \<Rightarrow>
             (if \<not> truthy (Some p)
              then (Inl (HTTPException 400 ''Price required for limit orders''), w)
              else place_order lib w ex
                     \<lparr>o_symbol = symbol cfg, o_type = ''limit'', o_side = side,
                      o_amount = qty, o_price = Some p, o_params = None\<rparr>))
      else if order_type cfg \<in> set [''stop_loss'', ''take_profit''] then
        (case order_price cfg a of
           None \<Rightarrow>
             (Inl (HTTPException 400 (''Price required for '' @ order_type cfg @ '' orders'')), w)
         | Some p \<Rightarrow>
             (if \<not> truthy (Some p)
              then (Inl (HTTPException 400
                          (''Price required for '' @ order_type cfg @ '' orders'')), w)
              else place_order lib w ex
                     \<lparr>o_symbol = symbol cfg, o_type = ''stop'', o_side = side,
                      o_amount = qty, o_price = Some p,
                      o_params = Some [(''stopPrice'', p)]\<rparr>))
      else (Inr None, w))"

subsection \<open>main.py: the webhook handler (lines 159-279)\<close>

text \<open>Line 240: \<^verbatim>\<open>order_result["id"] if order_result and "id" in order_result else None\<close>.\<close>

definition receipt_id :: "receipt option \<Rightarrow> string option" where
  "receipt_id order_res =
     (case order_res of
        None \<Rightarrow> None
      | Some r \<Rightarrow> (if r \<noteq> [] \<and> map_of r ''id'' \<noteq> None then map_of r ''id'' else None))"

text \<open>The body of the \<^verbatim>\<open>try\<close> block (lines 162-260).\<close>

definition try_block ::
  "ccxt \<Rightarrow> world \<Rightarrow> alert \<Rightarrow> string \<Rightarrow> (exn + order_result) \<times> world" where
  "try_block lib w a now =
     (case get_alert_config w (user_id a) (config_name a) of
        None \<Rightarrow>
          (Inl (HTTPException 404
                 (''Configuration '' @ apostrophe @ config_name a @ apostrophe @ '' not found'')), w)
      | Some cfg \<Rightarrow>
         (case get_exchange_client lib w (user_id a) (exchange cfg) of
            (Inl e, w1) \<Rightarrow> (Inl e, w1)
          | (Inr ex, w1) \<Rightarrow>
             (let side = (if position_side cfg = ''long'' then ''buy'' else ''sell'')
              in case resolve_quantity lib w1 ex cfg a of
                   (Inl e, w2) \<Rightarrow> (Inl e, w2)
                 | (Inr qty, w2) \<Rightarrow>
                    (case dispatch lib w2 ex cfg a side qty of
                       (Inl e, w3) \<Rightarrow> (Inl e, w3)
                     | (Inr order_res, w3) \<Rightarrow>
                        (let result =
                               \<lparr>success = True, order_id = receipt_id order_res,
                                message = Some ''Order executed successfully'',
                                details = order_res, timestamp = now\<rparr>;
                             history_data = SuccessRecord
                               \<lparr>h_config_name = config_name a, h_symbol = symbol cfg,
                                h_side = side, h_quantity = qty, h_price = alert_price a,
                                h_timestamp = timestamp result, h_success = True,
                                h_order_id = order_id result, h_details = details result\<rparr>
                         in (Inr result, save_alert_history w3 (user_id a) history_data))))))"

text \<open>The handler: \<^verbatim>\<open>except HTTPException: raise\<close> passes an \<open>HTTPException\<close> on to the
  caller; \<^verbatim>\<open>except Exception as e\<close> turns any other exception into a failure result
  and a failure history record.\<close>

definition process_tradingview_alert ::
  "ccxt \<Rightarrow> world \<Rightarrow> alert \<Rightarrow> string \<Rightarrow> (exn + order_result) \<times> world" where
  "process_tradingview_alert lib w a now =
     (case try_block lib w a now of
        (Inr result, w') \<Rightarrow> (Inr result, w')
      | (Inl (HTTPException st d), w') \<Rightarrow> (Inl (HTTPException st d), w')
      | (Inl (Error e), w') \<Rightarrow>
          (let error_result =
                 \<lparr>success = False, order_id = None,
                  message = Some (''Error executing order: '' @ e),
                  details = None, timestamp = now\<rparr>;
               history_data = FailureRecord
                 \<lparr>f_config_name = config_name a, f_timestamp = timestamp error_result,
                  f_success = False, f_message = message error_result\<rparr>
           in (Inr error_result, save_alert_history w' (user_id a) history_data)))"

text \<open>What the \<^verbatim>\<open>except Exception\<close> branch (lines 263-279) yields for an exception with
  text \<open>msg\<close> raised in state \<open>w'\<close>: the failure result, and \<open>w'\<close> with the failure record
  written under the alert's history key.\<close>

abbreviation failure_outcome ::
  "alert \<Rightarrow> string \<Rightarrow> string \<Rightarrow> world \<Rightarrow> (exn + order_result) \<times> world" where
  "failure_outcome a now msg w' \<equiv>
     (Inr \<lparr>success = False, order_id = None,
            message = Some (''Error executing order: '' @ msg),
            details = None, timestamp = now\<rparr>,
      w'\<lparr>history := (history w')(alert_id (user_id a) now \<mapsto>
           FailureRecord
             \<lparr>f_config_name = config_name a, f_timestamp = now, f_success = False,
              f_message = Some (''Error executing order: '' @ msg)\<rparr>)\<rparr>)"

subsection \<open>Example data\<close>

text \<open>The configuration and alert of the specification's first example: a market order
  for a fixed quantity of 0.01 BTC/USDT on binance, long.\<close>

definition example_config :: config where
  "example_config =
     \<lparr>name = ''c1'', exchange = ''binance'', symbol = ''BTC/USDT'', order_type = ''market'',
      position_side = ''long'', quantity = Some (1 / 100), quantity_percentage = None,
      price = None, stop_loss = None, take_profit = None, description = None\<rparr>"

definition example_alert :: alert where
  "example_alert =
     \<lparr>config_name = ''c1'', user_id = ''u1'', alert_price = None, alert_volume = None,
      alert_time = None, alert_exchange = None, alert_symbol = None, alert_message = None\<rparr>"

text \<open>An exchange library that knows binance only, reports a free balance of 1000 USDT
  and a last price of 50000, and numbers its order receipts by the calls made so far.\<close>

definition example_lib :: ccxt where
  "example_lib =
     \<lparr>exchange_class = (\<lambda>nm creds. if nm = ''binance'' then None
                                      else Some ''module ccxt has no attribute''),
      fetch_balance = (\<lambda>log c. Inr [''USDT'' \<mapsto> Some 1000]),
      fetch_ticker = (\<lambda>log c s. Inr (Some 50000)),
      create_order = (\<lambda>log c req. Inr [(''id'', if log = [] then ''1'' else ''2'')])\<rparr>"

definition example_client :: client where
  "example_client =
     \<lparr>client_id = 0, client_exchange = ''binance'', apiKey = ''k'', secret = ''s'',
      enableRateLimit = True\<rparr>"

text \<open>A state with one stored configuration and one stored key pair, both of user
  \<open>u1\<close>; nothing cached, no history, no calls made.\<close>

definition example_world :: "config \<Rightarrow> world" where
  "example_world cfg =
     \<lparr>configs = [alert_config_key ''u1'' ''c1'' \<mapsto> cfg],
      api_keys = [api_key_key ''u1'' ''binance''
                    \<mapsto> Inr \<lparr>api_key = ''k'', api_secret = ''s''\<rparr>],
      history = Map.empty, exchange_clients = Map.empty, constructed = 0, calls = []\<rparr>"

text \<open>The same configuration sized by percentage: 10 percent of the free quote balance.\<close>

definition pct_config :: config where
  "pct_config = example_config\<lparr>quantity := None, quantity_percentage := Some 10\<rparr>"

text \<open>The same configuration as a limit order at a stored price of 100.\<close>

definition limit_config :: config where
  "limit_config = example_config\<lparr>order_type := ''limit'', price := Some 100\<rparr>"

subsection \<open>Observing the call log\<close>

text \<open>The order placements in a call log: the requests of its \<^verbatim>\<open>create_order\<close> calls,
  oldest first.\<close>

fun placed_orders :: "call list \<Rightarrow> order_request list" where
  "placed_orders [] = []"
| "placed_orders (CreateOrder i req # cs) = req # placed_orders cs"
| "placed_orders (c # cs) = placed_orders cs"


section \<open>Auxiliary lemmas\<close>

subsection \<open>What each step leaves unchanged\<close>

lemma placed_orders_append: "placed_orders (xs @ ys) = placed_orders xs @ placed_orders ys"
  by (induction xs rule: placed_orders.induct) simp_all

lemma get_exchange_client_frame:
  assumes "get_exchange_client lib w u e = (r, w')"
  shows "configs w' = configs w \<and> api_keys w' = api_keys w \<and> history w' = history w
         \<and> calls w' = calls w"
  using assms
  by (auto simp: get_exchange_client_def Let_def split: option.splits sum.splits)

lemma ticker_last_frame:
  assumes "ticker_last lib w ex s = (r, w')"
  shows "w' = w\<lparr>calls := calls w @ [FetchTicker (client_id ex) s]\<rparr>"
  using assms by (auto simp: ticker_last_def Let_def split: sum.splits)

lemma current_price_frame:
  assumes "current_price lib w ex s a = (r, w')"
  shows "configs w' = configs w \<and> history w' = history w
         \<and> placed_orders (calls w') = placed_orders (calls w)"
  using assms
  by (auto simp: current_price_def placed_orders_append dest!: ticker_last_frame
           split: option.splits if_splits)

lemma percentage_quantity_frame:
  assumes "percentage_quantity lib w ex cfg a pct = (r, w')"
  shows "configs w' = configs w \<and> history w' = history w
         \<and> placed_orders (calls w') = placed_orders (calls w)"
  using assms
  by (auto simp: percentage_quantity_def Let_def placed_orders_append
           dest!: current_price_frame
           split: option.splits if_splits sum.splits list.splits prod.splits)

lemma resolve_quantity_frame:
  assumes "resolve_quantity lib w ex cfg a = (r, w')"
  shows "configs w' = configs w \<and> history w' = history w
         \<and> placed_orders (calls w') = placed_orders (calls w)"
  using assms
  by (auto simp: resolve_quantity_def determine_quantity_def
           dest!: percentage_quantity_frame
           split: option.splits if_splits sum.splits prod.splits)

lemma place_order_frame:
  assumes "place_order lib w ex req = (r, w')"
  shows "w' = w\<lparr>calls := calls w @ [CreateOrder (client_id ex) req]\<rparr>"
  using assms by (auto simp: place_order_def Let_def split: sum.splits)

lemma dispatch_frame:
  assumes "dispatch lib w ex cfg a side q = (r, w')"
  shows "configs w' = configs w \<and> history w' = history w"
  using assms
  by (auto simp: dispatch_def dest!: place_order_frame
           split: option.splits if_splits)


lemma try_block_success:
  assumes "try_block lib w a now = (Inr r, w')"
  shows "\<exists>cfg ex w1 q w2 rc w3.
           get_alert_config w (user_id a) (config_name a) = Some cfg
         \<and> get_exchange_client lib w (user_id a) (exchange cfg) = (Inr ex, w1)
         \<and> resolve_quantity lib w1 ex cfg a = (Inr q, w2)
         \<and> dispatch lib w2 ex cfg a (if position_side cfg = ''long'' then ''buy'' else ''sell'') q
               = (Inr rc, w3)
         \<and> r = \<lparr>success = True, order_id = receipt_id rc,
                  message = Some ''Order executed successfully'', details = rc,
                  timestamp = now\<rparr>
         \<and> w' = save_alert_history w3 (user_id a)
                  (SuccessRecord
                     \<lparr>h_config_name = config_name a, h_symbol = symbol cfg,
                      h_side = (if position_side cfg = ''long'' then ''buy'' else ''sell''),
                      h_quantity = q, h_price = alert_price a, h_timestamp = now,
                      h_success = True, h_order_id = receipt_id rc, h_details = rc\<rparr>)"
  using assms
  by (auto simp: try_block_def Let_def split: option.splits sum.splits prod.splits)

lemma try_block_failure_history:
  assumes "try_block lib w a now = (Inl e, w')"
  shows "history w' = history w"
  using assms
  by (auto simp: try_block_def Let_def
           dest!: get_exchange_client_frame resolve_quantity_frame dispatch_frame
           split: option.splits sum.splits prod.splits)

lemma handler_success:
  assumes "process_tradingview_alert lib w a now = (Inr r, w')" and "success r"
  shows "try_block lib w a now = (Inr r, w')"
  using assms
  by (auto simp: process_tradingview_alert_def Let_def
           split: sum.splits prod.splits exn.splits)


subsection \<open>How the handler treats a failing step\<close>

lemma handler_converts:
  assumes "try_block lib w a now = (Inl (Error msg), w')"
  shows "process_tradingview_alert lib w a now = failure_outcome a now msg w'"
  using assms
  by (simp add: process_tradingview_alert_def save_alert_history_def history_timestamp_def
                Let_def)

lemma handler_reraises:
  assumes "try_block lib w a now = (Inl (HTTPException st d), w')"
  shows "process_tradingview_alert lib w a now = (Inl (HTTPException st d), w')"
  using assms by (simp add: process_tradingview_alert_def)

lemma try_block_client_failure:
  assumes "get_alert_config w (user_id a) (config_name a) = Some cfg"
    and "get_exchange_client lib w (user_id a) (exchange cfg) = (Inl e, w')"
  shows "try_block lib w a now = (Inl e, w')"
  using assms by (simp add: try_block_def)

lemma try_block_quantity_failure:
  assumes "get_alert_config w (user_id a) (config_name a) = Some cfg"
    and "get_exchange_client lib w (user_id a) (exchange cfg) = (Inr ex, w1)"
    and "resolve_quantity lib w1 ex cfg a = (Inl e, w')"
  shows "try_block lib w a now = (Inl e, w')"
  using assms by (simp add: try_block_def)

lemma try_block_dispatch_failure:
  assumes "get_alert_config w (user_id a) (config_name a) = Some cfg"
    and "get_exchange_client lib w (user_id a) (exchange cfg) = (Inr ex, w1)"
    and "resolve_quantity lib w1 ex cfg a = (Inr q, w2)"
    and "dispatch lib w2 ex cfg a
           (if position_side cfg = ''long'' then ''buy'' else ''sell'') q = (Inl e, w')"
  shows "try_block lib w a now = (Inl e, w')"
  using assms by (simp add: try_block_def)

lemma client_failure_by_cause:
  assumes miss: "exchange_clients w (client_key uid nm) = None"
  shows "api_keys w (api_key_key uid nm) = Some (Inl msg) \<Longrightarrow>
           get_exchange_client lib w uid nm = (Inl (Error msg), w)"
    and "api_keys w (api_key_key uid nm) = None \<Longrightarrow>
           get_exchange_client lib w uid nm =
             (Inl (HTTPException 404 (''API keys not found for exchange '' @ nm)), w)"
    and "api_keys w (api_key_key uid nm) = Some (Inr creds) \<Longrightarrow>
         exchange_class lib nm creds = Some msg \<Longrightarrow>
           get_exchange_client lib w uid nm =
             (Inl (HTTPException 500 (''Error creating exchange client: '' @ msg)), w)"
  using miss by (simp_all add: get_exchange_client_def get_exchange_api_key_def)

subsection \<open>Unfolding\<close>

lemmas example_defs =
  example_world_def example_config_def example_alert_def example_lib_def example_client_def
  alert_config_key_def api_key_key_def alert_id_def client_key_def apostrophe_def

lemmas pipeline_defs =
  process_tradingview_alert_def try_block_def get_alert_config_def get_exchange_client_def
  get_exchange_api_key_def resolve_quantity_def determine_quantity_def percentage_quantity_def
  current_price_def ticker_last_def float_def dispatch_def place_order_def order_price_def
  receipt_id_def save_alert_history_def history_timestamp_def Let_def

lemmas step_defs =
  get_alert_config_def get_exchange_client_def get_exchange_api_key_def resolve_quantity_def
  determine_quantity_def order_price_def Let_def


section \<open>Properties\<close>

subsection \<open>Failures of client acquisition, quantity resolution and dispatch\<close>

text \<open>
  C1 (as amended). Let the alert's configuration exist. Whether a failure of client
  acquisition, quantity resolution or order dispatch reaches the webhook caller depends
  on its cause.

  These causes raise an exception other than \<open>HTTPException\<close>, and for each the handler
  returns an \<open>order_result\<close> with \<open>success = False\<close> and the message
  \<^verbatim>\<open>Error executing order: \<close> followed by the exception's text, after writing a failure
  history record for the alert's user under the invocation's timestamp: a stored key pair
  that cannot be read; an exception of \<^verbatim>\<open>fetch_balance\<close>, of \<^verbatim>\<open>fetch_ticker\<close> or of
  \<^verbatim>\<open>create_order\<close> (an exchange rejection or a network error); a symbol without a second
  component; a free balance or a last price of \<^verbatim>\<open>None\<close>; a last price of zero.

  These causes raise an \<open>HTTPException\<close> in the code itself, which
  \<^verbatim>\<open>except HTTPException: raise\<close> passes on to the webhook caller, the history being left
  as it was: no stored key pair (404); the exchange class refusing to construct the
  client (500); no balance entry for the quote currency (400); a quantity that is unset
  or zero (400); no price for a limit, stop-loss or take-profit order (400).
\<close>

theorem step_failure_outcome_by_cause:
  assumes cfg: "get_alert_config w (user_id a) (config_name a) = Some cfg"
  shows
    "(exchange_clients w (client_key (user_id a) (exchange cfg)) = None \<longrightarrow>
        (\<forall>msg. api_keys w (api_key_key (user_id a) (exchange cfg)) = Some (Inl msg) \<longrightarrow>
            process_tradingview_alert lib w a now = failure_outcome a now msg w)
      \<and> (api_keys w (api_key_key (user_id a) (exchange cfg)) = None \<longrightarrow>
            process_tradingview_alert lib w a now =
              (Inl (HTTPException 404 (''API keys not found for exchange '' @ exchange cfg)), w))
      \<and> (\<forall>creds msg.
            api_keys w (api_key_key (user_id a) (exchange cfg)) = Some (Inr creds) \<longrightarrow>
            exchange_class lib (exchange cfg) creds = Some msg \<longrightarrow>
            process_tradingview_alert lib w a now =
              (Inl (HTTPException 500 (''Error creating exchange client: '' @ msg)), w)))
   \<and> (\<forall>ex w1.
        get_exchange_client lib w (user_id a) (exchange cfg) = (Inr ex, w1) \<longrightarrow>
        \<not> truthy (quantity cfg) \<longrightarrow>
          history w1 = history w
        \<and> (\<not> truthy (quantity_percentage cfg) \<longrightarrow>
              process_tradingview_alert lib w a now =
                (Inl (HTTPException 400 ''Could not determine order quantity''), w1))
        \<and> (truthy (quantity_percentage cfg) \<longrightarrow>
              (\<forall>msg. fetch_balance lib (calls w1) ex = Inl msg \<longrightarrow>
                  process_tradingview_alert lib w a now =
                    failure_outcome a now msg
                      (w1\<lparr>calls := calls w1 @ [FetchBalance (client_id ex)]\<rparr>))
            \<and> (\<forall>balance. fetch_balance lib (calls w1) ex = Inr balance \<longrightarrow>
                  (length (split CHR ''/'' (symbol cfg)) < 2 \<longrightarrow>
                      process_tradingview_alert lib w a now =
                        failure_outcome a now ''list index out of range''
                          (w1\<lparr>calls := calls w1 @ [FetchBalance (client_id ex)]\<rparr>))
                \<and> (\<forall>base quote rest.
                      split CHR ''/'' (symbol cfg) = base # quote # rest \<longrightarrow>
                        (balance quote = None \<longrightarrow>
                            process_tradingview_alert lib w a now =
                              (Inl (HTTPException 400 (''No balance found for '' @ quote)),
                               w1\<lparr>calls := calls w1 @ [FetchBalance (client_id ex)]\<rparr>))
                      \<and> (balance quote = Some None \<longrightarrow>
                            process_tradingview_alert lib w a now =
                              failure_outcome a now
                                (''float() argument must be a string or a real number, not ''
                                   @ apostrophe @ ''NoneType'' @ apostrophe)
                                (w1\<lparr>calls := calls w1 @ [FetchBalance (client_id ex)]\<rparr>))
                      \<and> (balance quote = Some (Some 0) \<longrightarrow>
                            (\<forall>p. alert_price a = Some p \<longrightarrow> p \<noteq> 0 \<longrightarrow>
                               process_tradingview_alert lib w a now =
                                 (Inl (HTTPException 400 ''Could not determine order quantity''),
                                  w1\<lparr>calls := calls w1 @ [FetchBalance (client_id ex)]\<rparr>)))
                      \<and> (\<forall>available.
                            balance quote = Some (Some available) \<longrightarrow>
                            \<not> truthy (alert_price a) \<longrightarrow>
                              (\<forall>msg.
                                  fetch_ticker lib (calls w1 @ [FetchBalance (client_id ex)]) ex
                                    (symbol cfg) = Inl msg \<longrightarrow>
                                  process_tradingview_alert lib w a now =
                                    failure_outcome a now msg
                                      (w1\<lparr>calls := calls w1 @
                                          [FetchBalance (client_id ex),
                                           FetchTicker (client_id ex) (symbol cfg)]\<rparr>))
                            \<and> (fetch_ticker lib (calls w1 @ [FetchBalance (client_id ex)]) ex
                                    (symbol cfg) = Inr None \<longrightarrow>
                                  process_tradingview_alert lib w a now =
                                    failure_outcome a now
                                      (''float() argument must be a string or a real number, not ''
                                         @ apostrophe @ ''NoneType'' @ apostrophe)
                                      (w1\<lparr>calls := calls w1 @
                                          [FetchBalance (client_id ex),
                                           FetchTicker (client_id ex) (symbol cfg)]\<rparr>))
                            \<and> (fetch_ticker lib (calls w1 @ [FetchBalance (client_id ex)]) ex
                                    (symbol cfg) = Inr (Some 0) \<longrightarrow>
                                  process_tradingview_alert lib w a now =
                                    failure_outcome a now ''float division by zero''
                                      (w1\<lparr>calls := calls w1 @
                                          [FetchBalance (client_id ex),
                                           FetchTicker (client_id ex) (symbol cfg)]\<rparr>)))))))
   \<and> (\<forall>ex w1 q w2.
        get_exchange_client lib w (user_id a) (exchange cfg) = (Inr ex, w1) \<longrightarrow>
        resolve_quantity lib w1 ex cfg a = (Inr q, w2) \<longrightarrow>
          history w2 = history w
        \<and> (order_type cfg = ''market'' \<longrightarrow>
              (\<forall>msg.
                  create_order lib (calls w2) ex
                    \<lparr>o_symbol = symbol cfg, o_type = ''market'',
                     o_side = (if position_side cfg = ''long'' then ''buy'' else ''sell''),
                     o_amount = q, o_price = None, o_params = None\<rparr> = Inl msg \<longrightarrow>
                  process_tradingview_alert lib w a now =
                    failure_outcome a now msg
                      (w2\<lparr>calls := calls w2 @ [CreateOrder (client_id ex)
                          \<lparr>o_symbol = symbol cfg, o_type = ''market'',
                           o_side = (if position_side cfg = ''long'' then ''buy'' else ''sell''),
                           o_amount = q, o_price = None, o_params = None\<rparr>]\<rparr>)))
        \<and> (order_type cfg \<in> {''limit'', ''stop_loss'', ''take_profit''} \<longrightarrow>
              (\<not> truthy (alert_price a) \<and> \<not> truthy (price cfg) \<longrightarrow>
                  process_tradingview_alert lib w a now =
                    (Inl (HTTPException 400
                           (''Price required for '' @ order_type cfg @ '' orders'')), w2))
            \<and> (\<forall>p msg.
                  order_price cfg a = Some p \<longrightarrow> p \<noteq> 0 \<longrightarrow>
                  create_order lib (calls w2) ex
                    \<lparr>o_symbol = symbol cfg,
                     o_type = (if order_type cfg = ''limit'' then ''limit'' else ''stop''),
                     o_side = (if position_side cfg = ''long'' then ''buy'' else ''sell''),
                     o_amount = q, o_price = Some p,
                     o_params = (if order_type cfg = ''limit'' then None
                                 else Some [(''stopPrice'', p)])\<rparr> = Inl msg \<longrightarrow>
                  process_tradingview_alert lib w a now =
                    failure_outcome a now msg
                      (w2\<lparr>calls := calls w2 @ [CreateOrder (client_id ex)
                          \<lparr>o_symbol = symbol cfg,
                           o_type = (if order_type cfg = ''limit'' then ''limit'' else ''stop''),
                           o_side = (if position_side cfg = ''long'' then ''buy'' else ''sell''),
                           o_amount = q, o_price = Some p,
                           o_params = (if order_type cfg = ''limit'' then None
                                       else Some [(''stopPrice'', p)])\<rparr>]\<rparr>))))"
  using cfg
  apply (intro conjI allI impI)
  subgoal for msg
    by (rule handler_converts, rule try_block_client_failure, assumption)
       (simp add: client_failure_by_cause)
  subgoal
    by (rule handler_reraises, rule try_block_client_failure, assumption)
       (simp add: client_failure_by_cause)
  subgoal for creds msg
    by (rule handler_reraises, rule try_block_client_failure, assumption)
       (simp add: client_failure_by_cause)
  subgoal for ex w1
    by (simp add: get_exchange_client_frame)
  subgoal for ex w1
    by (rule handler_reraises, rule try_block_quantity_failure, assumption, assumption)
       (cases "quantity_percentage cfg",
        simp_all add: resolve_quantity_def determine_quantity_def)
  subgoal for ex w1 msg
    by (rule handler_converts, rule try_block_quantity_failure, assumption, assumption)
       (cases "quantity_percentage cfg",
        simp_all add: resolve_quantity_def determine_quantity_def percentage_quantity_def
                      Let_def)
  subgoal for ex w1 balance
    by (rule handler_converts, rule try_block_quantity_failure, assumption, assumption)
       (cases "quantity_percentage cfg",
        auto simp: resolve_quantity_def determine_quantity_def percentage_quantity_def
                   Let_def split: list.splits)
  subgoal for ex w1 balance base quote rest
    by (rule handler_reraises, rule try_block_quantity_failure, assumption, assumption)
       (cases "quantity_percentage cfg",
        simp_all add: resolve_quantity_def determine_quantity_def percentage_quantity_def
                      Let_def)
  subgoal for ex w1 balance base quote rest
    by (rule handler_converts, rule try_block_quantity_failure, assumption, assumption)
       (cases "quantity_percentage cfg",
        simp_all add: resolve_quantity_def determine_quantity_def percentage_quantity_def
                      float_def Let_def)
  subgoal for ex w1 balance base quote rest p
    by (rule handler_reraises, rule try_block_quantity_failure, assumption, assumption)
       (cases "quantity_percentage cfg",
        simp_all add: resolve_quantity_def determine_quantity_def percentage_quantity_def
                      current_price_def float_def Let_def)
  subgoal for ex w1 balance base quote rest available msg
    by (rule handler_converts, rule try_block_quantity_failure, assumption, assumption)
       (cases "quantity_percentage cfg"; cases "alert_price a";
        simp add: resolve_quantity_def determine_quantity_def percentage_quantity_def
                  current_price_def ticker_last_def float_def Let_def)
  subgoal for ex w1 balance base quote rest available
    by (rule handler_converts, rule try_block_quantity_failure, assumption, assumption)
       (cases "quantity_percentage cfg"; cases "alert_price a";
        simp add: resolve_quantity_def determine_quantity_def percentage_quantity_def
                  current_price_def ticker_last_def float_def Let_def)
  subgoal for ex w1 balance base quote rest available
    by (rule handler_converts, rule try_block_quantity_failure, assumption, assumption)
       (cases "quantity_percentage cfg"; cases "alert_price a";
        simp add: resolve_quantity_def determine_quantity_def percentage_quantity_def
                  current_price_def ticker_last_def float_def Let_def)
  subgoal for ex w1 q w2
    by (simp add: get_exchange_client_frame resolve_quantity_frame)
  subgoal for ex w1 q w2 msg
    by (rule handler_converts, rule try_block_dispatch_failure, assumption, assumption,
        assumption)
       (simp add: dispatch_def place_order_def Let_def)
  subgoal for ex w1 q w2
    by (rule handler_reraises, rule try_block_dispatch_failure, assumption, assumption,
        assumption)
       (cases "price cfg", auto simp: dispatch_def order_price_def)
  subgoal for ex w1 q w2 p msg
    by (rule handler_converts, rule try_block_dispatch_failure, assumption, assumption,
        assumption)
       (auto simp: dispatch_def place_order_def Let_def)
  done

theorem step_failure_outcome_by_cause_witness:
  "get_alert_config (example_world example_config) (user_id example_alert)
       (config_name example_alert) = Some example_config \<and>
   get_alert_config (example_world pct_config) (user_id example_alert)
       (config_name example_alert) = Some pct_config \<and>
   process_tradingview_alert
       (example_lib\<lparr>create_order := \<lambda>log c req. Inl ''insufficient funds''\<rparr>)
       (example_world example_config) example_alert ''t1''
     = failure_outcome example_alert ''t1'' ''insufficient funds''
         ((example_world example_config)
            \<lparr>exchange_clients := [client_key ''u1'' ''binance'' \<mapsto> example_client],
             constructed := 1,
             calls := [CreateOrder 0
                \<lparr>o_symbol = ''BTC/USDT'', o_type = ''market'', o_side = ''buy'',
                 o_amount = 1 / 100, o_price = None, o_params = None\<rparr>]\<rparr>) \<and>
   process_tradingview_alert example_lib
       ((example_world example_config)
          \<lparr>api_keys := [api_key_key ''u1'' ''binance'' \<mapsto> Inl ''InvalidToken'']\<rparr>)
       example_alert ''t1''
     = failure_outcome example_alert ''t1'' ''InvalidToken''
         ((example_world example_config)
            \<lparr>api_keys := [api_key_key ''u1'' ''binance'' \<mapsto> Inl ''InvalidToken'']\<rparr>) \<and>
   process_tradingview_alert
       (example_lib\<lparr>exchange_class := \<lambda>nm creds. Some ''bad credentials''\<rparr>)
       (example_world example_config) example_alert ''t1''
     = (Inl (HTTPException 500 ''Error creating exchange client: bad credentials''),
        example_world example_config) \<and>
   process_tradingview_alert
       (example_lib\<lparr>fetch_balance := \<lambda>log c. Inl ''network down''\<rparr>)
       (example_world pct_config) example_alert ''t1''
     = failure_outcome example_alert ''t1'' ''network down''
         ((example_world pct_config)
            \<lparr>exchange_clients := [client_key ''u1'' ''binance'' \<mapsto> example_client],
             constructed := 1, calls := [FetchBalance 0]\<rparr>) \<and>
   process_tradingview_alert
       (example_lib\<lparr>fetch_balance := \<lambda>log c. Inr [''BTC'' \<mapsto> Some 2]\<rparr>)
       (example_world pct_config) example_alert ''t1''
     = (Inl (HTTPException 400 ''No balance found for USDT''),
        (example_world pct_config)
          \<lparr>exchange_clients := [client_key ''u1'' ''binance'' \<mapsto> example_client],
           constructed := 1, calls := [FetchBalance 0]\<rparr>) \<and>
   process_tradingview_alert
       (example_lib\<lparr>fetch_ticker := \<lambda>log c s. Inl ''request timed out''\<rparr>)
       (example_world pct_config) example_alert ''t1''
     = failure_outcome example_alert ''t1'' ''request timed out''
         ((example_world pct_config)
            \<lparr>exchange_clients := [client_key ''u1'' ''binance'' \<mapsto> example_client],
             constructed := 1,
             calls := [FetchBalance 0, FetchTicker 0 ''BTC/USDT'']\<rparr>) \<and>
   process_tradingview_alert
       (example_lib\<lparr>fetch_ticker := \<lambda>log c s. Inr (Some 0)\<rparr>)
       (example_world pct_config) example_alert ''t1''
     = failure_outcome example_alert ''t1'' ''float division by zero''
         ((example_world pct_config)
            \<lparr>exchange_clients := [client_key ''u1'' ''binance'' \<mapsto> example_client],
             constructed := 1,
             calls := [FetchBalance 0, FetchTicker 0 ''BTC/USDT'']\<rparr>)"
    (is "?cfg \<and> ?pcfg \<and> ?rejected \<and> ?unreadable \<and> ?construction \<and> ?balance \<and> ?missing
         \<and> ?ticker \<and> ?zero")
proof -
  have cfg: ?cfg
    by (simp add: get_alert_config_def example_defs)
  have pcfg: ?pcfg
    by (simp add: get_alert_config_def example_defs pct_config_def)
  have unread: "get_alert_config
      ((example_world example_config)
          \<lparr>api_keys := [api_key_key ''u1'' ''binance'' \<mapsto> Inl ''InvalidToken'']\<rparr>)
      (user_id example_alert) (config_name example_alert) = Some example_config"
    by (simp add: get_alert_config_def example_defs)
  have rejected: ?rejected
    using step_failure_outcome_by_cause [OF cfg,
      of "example_lib\<lparr>create_order := \<lambda>log c req. Inl ''insufficient funds''\<rparr>" "''t1''"]
    by (simp add: step_defs example_defs)
  have unreadable: ?unreadable
    using step_failure_outcome_by_cause [OF unread, of example_lib "''t1''"]
    by (simp add: step_defs example_defs)
  have construction: ?construction
    using step_failure_outcome_by_cause [OF cfg,
      of "example_lib\<lparr>exchange_class := \<lambda>nm creds. Some ''bad credentials''\<rparr>" "''t1''"]
    by (simp add: step_defs example_defs)
  have balance: ?balance
    using step_failure_outcome_by_cause [OF pcfg,
      of "example_lib\<lparr>fetch_balance := \<lambda>log c. Inl ''network down''\<rparr>" "''t1''"]
    by (simp add: step_defs example_defs pct_config_def)
  have missing: ?missing
    using step_failure_outcome_by_cause [OF pcfg,
      of "example_lib\<lparr>fetch_balance := \<lambda>log c. Inr [''BTC'' \<mapsto> Some 2]\<rparr>" "''t1''"]
    by (simp add: step_defs example_defs pct_config_def)
  have ticker: ?ticker
    using step_failure_outcome_by_cause [OF pcfg,
      of "example_lib\<lparr>fetch_ticker := \<lambda>log c s. Inl ''request timed out''\<rparr>" "''t1''"]
    by (simp add: step_defs example_defs pct_config_def)
  have zero: ?zero
    using step_failure_outcome_by_cause [OF pcfg,
      of "example_lib\<lparr>fetch_ticker := \<lambda>log c s. Inr (Some 0)\<rparr>" "''t1''"]
    by (simp add: step_defs example_defs pct_config_def)
  from cfg pcfg rejected unreadable construction balance missing ticker zero
  show ?thesis by blast
qed

text \<open>
  The claim as first stated, that every failure of steps 2 to 4 becomes a failure result
  and a failure history record, fails for a configuration naming an exchange the user
  has no key pair for: client acquisition raises \<open>HTTPException 404\<close>, the handler
  re-raises it, and the state, with its empty history, is unchanged.
\<close>

theorem step_failure_counterexample:
  "get_alert_config (example_world (example_config\<lparr>exchange := ''bybit''\<rparr>)) ''u1'' ''c1''
     = Some (example_config\<lparr>exchange := ''bybit''\<rparr>) \<and>
   get_exchange_client example_lib (example_world (example_config\<lparr>exchange := ''bybit''\<rparr>))
       ''u1'' ''bybit''
     = (Inl (HTTPException 404 ''API keys not found for exchange bybit''),
        example_world (example_config\<lparr>exchange := ''bybit''\<rparr>)) \<and>
   process_tradingview_alert example_lib
       (example_world (example_config\<lparr>exchange := ''bybit''\<rparr>)) example_alert ''t1''
     = (Inl (HTTPException 404 ''API keys not found for exchange bybit''),
        example_world (example_config\<lparr>exchange := ''bybit''\<rparr>)) \<and>
   history (example_world (example_config\<lparr>exchange := ''bybit''\<rparr>)) (alert_id ''u1'' ''t1'')
     = None"
  by (simp add: pipeline_defs example_defs)

subsection \<open>Unknown configuration\<close>

text \<open>
  C2 (as amended). For every alert whose \<open>config_name\<close> has no stored configuration for its
  \<open>user_id\<close>, the handler raises \<open>HTTPException 404\<close> with the detail
  \<^verbatim>\<open>Configuration '<config_name>' not found\<close> to its caller. It returns no
  \<open>order_result\<close> and leaves the whole state unchanged: no history record is written, no
  client is constructed, no exchange call is made.
\<close>

theorem missing_config_raises_404:
  assumes "get_alert_config w (user_id a) (config_name a) = None"
  shows "process_tradingview_alert lib w a now =
           (Inl (HTTPException 404
              (''Configuration '' @ apostrophe @ config_name a @ apostrophe @ '' not found'')), w)"
  using assms by (simp add: process_tradingview_alert_def try_block_def)

theorem missing_config_raises_404_witness:
  "get_alert_config (example_world example_config)
      (user_id (example_alert\<lparr>config_name := ''zz''\<rparr>))
      (config_name (example_alert\<lparr>config_name := ''zz''\<rparr>)) = None \<and>
   process_tradingview_alert example_lib (example_world example_config)
          (example_alert\<lparr>config_name := ''zz''\<rparr>) ''t1''
     = (Inl (HTTPException 404 ''Configuration 'zz' not found''), example_world example_config)"
proof -
  have h: "get_alert_config (example_world example_config)
      (user_id (example_alert\<lparr>config_name := ''zz''\<rparr>))
      (config_name (example_alert\<lparr>config_name := ''zz''\<rparr>)) = None"
    by (simp add: get_alert_config_def example_defs)
  show ?thesis
    using h missing_config_raises_404 [OF h, of example_lib "''t1''"]
    by (simp add: example_alert_def apostrophe_def)
qed

text \<open>
  The claim as first stated, that an unknown \<open>config_name\<close> yields a result with
  \<open>success = False\<close> and a failure history record, fails at the configuration name \<open>zz\<close>:
  the outcome is the raised \<open>HTTPException\<close> and the history holds nothing under the
  alert's key.
\<close>

theorem missing_config_counterexample:
  "get_alert_config (example_world example_config) ''u1'' ''zz'' = None \<and>
   fst (process_tradingview_alert example_lib (example_world example_config)
          (example_alert\<lparr>config_name := ''zz''\<rparr>) ''t1'')
     = Inl (HTTPException 404 (''Configuration '' @ apostrophe @ ''zz'' @ apostrophe @ '' not found'')) \<and>
   history (snd (process_tradingview_alert example_lib (example_world example_config)
          (example_alert\<lparr>config_name := ''zz''\<rparr>) ''t1'')) (alert_id ''u1'' ''t1'') = None"
  by (simp add: pipeline_defs example_defs)

subsection \<open>Unrecognized order types\<close>

text \<open>
  C3 (as amended). For every \<open>order_type\<close> outside \<open>market\<close>, \<open>limit\<close>, \<open>stop_loss\<close>,
  \<open>take_profit\<close>, the dispatch step raises no error, the code having no unsupported-type
  error at all: it places no exchange order, makes no call, changes no state and yields
  no order receipt (\<^verbatim>\<open>order_result\<close> stays \<^verbatim>\<open>None\<close>). The order type is restricted to
  the four values by \<^verbatim>\<open>OrderTypeEnum\<close> when a configuration is saved, not at dispatch.
\<close>

theorem unrecognized_order_type_places_nothing:
  assumes "order_type cfg \<notin> {''market'', ''limit'', ''stop_loss'', ''take_profit''}"
  shows "dispatch lib w ex cfg a side q = (Inr None, w)"
  using assms by (simp add: dispatch_def)

theorem unrecognized_order_type_places_nothing_witness:
  "order_type (example_config\<lparr>order_type := ''trailing_stop''\<rparr>)
     \<notin> {''market'', ''limit'', ''stop_loss'', ''take_profit''} \<and>
   dispatch example_lib (example_world example_config) example_client
       (example_config\<lparr>order_type := ''trailing_stop''\<rparr>) example_alert ''buy'' (1 / 100)
     = (Inr None, example_world example_config)"
proof -
  have h: "order_type (example_config\<lparr>order_type := ''trailing_stop''\<rparr>)
     \<notin> {''market'', ''limit'', ''stop_loss'', ''take_profit''}"
    by simp
  show ?thesis
    using h unrecognized_order_type_places_nothing [OF h] by simp
qed

text \<open>
  The claim as first stated, that dispatch fails for such a type and no success result
  is produced, fails for a stored configuration of type \<open>trailing_stop\<close>: the handler
  returns a result with \<open>success = True\<close>, no order id and no details, and no call was made
  on the exchange.
\<close>

theorem unrecognized_order_type_counterexample:
  "order_type (example_config\<lparr>order_type := ''trailing_stop''\<rparr>)
     \<notin> {''market'', ''limit'', ''stop_loss'', ''take_profit''} \<and>
   fst (process_tradingview_alert example_lib
          (example_world (example_config\<lparr>order_type := ''trailing_stop''\<rparr>))
          example_alert ''t1'')
     = Inr \<lparr>success = True, order_id = None, message = Some ''Order executed successfully'',
            details = None, timestamp = ''t1''\<rparr> \<and>
   calls (snd (process_tradingview_alert example_lib
          (example_world (example_config\<lparr>order_type := ''trailing_stop''\<rparr>))
          example_alert ''t1'')) = []"
  by (simp add: pipeline_defs example_defs)

subsection \<open>Quantity from a percentage of the balance\<close>

text \<open>
  C4 (as amended). For every configuration whose fixed quantity is unset or zero and
  whose \<open>quantity_percentage\<close> is set and nonzero, with a symbol that has a second
  component \<open>quote\<close> (\<open>USDT\<close> for \<open>BTC/USDT\<close>) and a \<^verbatim>\<open>fetch_balance\<close> call that answers:
  (a) \<^verbatim>\<open>fetch_balance\<close> is called once, first, and when \<open>quote\<close> is absent from the balance
  the resolution fails with \<open>HTTPException 400\<close>, \<^verbatim>\<open>No balance found for <quote>\<close>;
  (b) the current price is the alert's price when that is present and nonzero (positive
  or negative), with no ticker call, and otherwise the ticker's last price, with one
  ticker call; (c) the quantity is
  \<open>(available * quantity_percentage / 100) / current_price\<close>, \<open>available\<close> being the free
  quote balance. A free balance of 1000 USDT, 10 percent and a last price of 50000 give
  \<open>1 / 500\<close>, that is 0.002.
\<close>

theorem percentage_quantity_resolution:
  assumes noq: "\<not> truthy (quantity cfg)"
    and pct: "quantity_percentage cfg = Some pct" "pct \<noteq> 0"
    and sym: "split CHR ''/'' (symbol cfg) = base # quote # rest"
    and bal: "fetch_balance lib (calls w) ex = Inr balance"
  shows "(balance quote = None \<longrightarrow>
            determine_quantity lib w ex cfg a =
              (Inl (HTTPException 400 (''No balance found for '' @ quote)),
               w\<lparr>calls := calls w @ [FetchBalance (client_id ex)]\<rparr>))
       \<and> (\<forall>available p. balance quote = Some (Some available) \<longrightarrow>
            alert_price a = Some p \<longrightarrow> p \<noteq> 0 \<longrightarrow>
            determine_quantity lib w ex cfg a =
              (Inr (Some ((available * pct / 100) / p)),
               w\<lparr>calls := calls w @ [FetchBalance (client_id ex)]\<rparr>))
       \<and> (\<forall>available last_price. balance quote = Some (Some available) \<longrightarrow>
            \<not> truthy (alert_price a) \<longrightarrow>
            fetch_ticker lib (calls w @ [FetchBalance (client_id ex)]) ex (symbol cfg)
              = Inr (Some last_price) \<longrightarrow>
            last_price \<noteq> 0 \<longrightarrow>
            determine_quantity lib w ex cfg a =
              (Inr (Some ((available * pct / 100) / last_price)),
               w\<lparr>calls := calls w @ [FetchBalance (client_id ex),
                                        FetchTicker (client_id ex) (symbol cfg)]\<rparr>))"
proof (intro conjI allI impI)
  assume "balance quote = None"
  with assms show "determine_quantity lib w ex cfg a =
      (Inl (HTTPException 400 (''No balance found for '' @ quote)),
       w\<lparr>calls := calls w @ [FetchBalance (client_id ex)]\<rparr>)"
    by (simp add: determine_quantity_def percentage_quantity_def Let_def)
next
  fix available p
  assume "balance quote = Some (Some available)" "alert_price a = Some p" "p \<noteq> 0"
  with assms show "determine_quantity lib w ex cfg a =
      (Inr (Some ((available * pct / 100) / p)),
       w\<lparr>calls := calls w @ [FetchBalance (client_id ex)]\<rparr>)"
    by (simp add: determine_quantity_def percentage_quantity_def current_price_def float_def
                  Let_def)
next
  fix available last_price
  assume "balance quote = Some (Some available)" "\<not> truthy (alert_price a)"
    "fetch_ticker lib (calls w @ [FetchBalance (client_id ex)]) ex (symbol cfg)
       = Inr (Some last_price)" "last_price \<noteq> 0"
  with assms show "determine_quantity lib w ex cfg a =
      (Inr (Some ((available * pct / 100) / last_price)),
       w\<lparr>calls := calls w @ [FetchBalance (client_id ex),
                                FetchTicker (client_id ex) (symbol cfg)]\<rparr>)"
    by (cases "alert_price a")
       (simp_all add: determine_quantity_def percentage_quantity_def current_price_def
                      ticker_last_def float_def Let_def)
qed

theorem percentage_quantity_resolution_witness:
  "\<not> truthy (quantity pct_config) \<and> quantity_percentage pct_config = Some 10 \<and>
   (10::rat) \<noteq> 0 \<and> split CHR ''/'' (symbol pct_config) = [''BTC'', ''USDT''] \<and>
   fetch_balance example_lib (calls (example_world pct_config)) example_client
     = Inr [''USDT'' \<mapsto> Some 1000] \<and>
   determine_quantity example_lib (example_world pct_config) example_client pct_config
       example_alert
     = (Inr (Some (1 / 500)),
        (example_world pct_config)
          \<lparr>calls := [FetchBalance 0, FetchTicker 0 ''BTC/USDT'']\<rparr>) \<and>
   determine_quantity example_lib (example_world pct_config) example_client pct_config
       (example_alert\<lparr>alert_price := Some 25000\<rparr>)
     = (Inr (Some (1 / 250)), (example_world pct_config)\<lparr>calls := [FetchBalance 0]\<rparr>) \<and>
   determine_quantity (example_lib\<lparr>fetch_balance := \<lambda>log c. Inr [''BTC'' \<mapsto> Some 2]\<rparr>)
       (example_world pct_config) example_client pct_config example_alert
     = (Inl (HTTPException 400 ''No balance found for USDT''),
        (example_world pct_config)\<lparr>calls := [FetchBalance 0]\<rparr>)"
    (is "?noq \<and> ?pct \<and> ?ne \<and> ?sym \<and> ?bal \<and> ?ticker \<and> ?alert \<and> ?missing")
proof -
  have noq: ?noq and pct: ?pct and ne: ?ne and sym: ?sym
    by (simp_all add: pct_config_def example_config_def)
  have bal: ?bal
    by (simp add: example_lib_def)
  have bal': "fetch_balance (example_lib\<lparr>fetch_balance := \<lambda>log c. Inr [''BTC'' \<mapsto> Some 2]\<rparr>)
      (calls (example_world pct_config)) example_client = Inr [''BTC'' \<mapsto> Some 2]"
    by simp
  note T = percentage_quantity_resolution [OF noq pct ne sym bal]
  note T' = percentage_quantity_resolution [OF noq pct ne sym bal']
  have ticker: ?ticker
    using T [of example_alert, THEN conjunct2, THEN conjunct2, rule_format, of 1000 50000]
    by (simp add: example_defs pct_config_def)
  have alert: ?alert
    using T [of "example_alert\<lparr>alert_price := Some 25000\<rparr>",
             THEN conjunct2, THEN conjunct1, rule_format, of 1000 25000]
    by (simp add: example_defs pct_config_def)
  have missing: ?missing
    using T' [of example_alert, THEN conjunct1]
    by (simp add: example_defs pct_config_def)
  from noq pct ne sym bal ticker alert missing show ?thesis by blast
qed

text \<open>
  The claim as first stated takes the alert's price only when it is positive, and covers
  every set percentage. With an alert price of \<open>- 5\<close> the code divides by \<open>- 5\<close>, returns
  \<open>- 20\<close> and asks for no ticker, where the claim gives \<open>(1000 * 10 / 100) / 50000\<close>;
  with a percentage of zero the code calls nothing and fails with
  \<^verbatim>\<open>Could not determine order quantity\<close>.
\<close>

theorem percentage_quantity_counterexample:
  "resolve_quantity example_lib (example_world pct_config) example_client pct_config
       (example_alert\<lparr>alert_price := Some (- 5)\<rparr>)
     = (Inr (- 20), (example_world pct_config)\<lparr>calls := [FetchBalance 0]\<rparr>) \<and>
   (- 20 :: rat) \<noteq> (1000 * 10 / 100) / 50000 \<and>
   resolve_quantity example_lib
       (example_world (example_config\<lparr>quantity := None, quantity_percentage := Some 0\<rparr>))
       example_client (example_config\<lparr>quantity := None, quantity_percentage := Some 0\<rparr>)
       example_alert
     = (Inl (HTTPException 400 ''Could not determine order quantity''),
        example_world (example_config\<lparr>quantity := None, quantity_percentage := Some 0\<rparr>))"
  by (simp add: pipeline_defs example_defs pct_config_def)

subsection \<open>Price of limit and stop orders\<close>

text \<open>
  C5 (as amended). For every dispatch with \<open>order_type\<close> \<open>limit\<close>, \<open>stop_loss\<close> or
  \<open>take_profit\<close>, the price of the order is the alert's price when that is present and
  nonzero, otherwise the configuration's price when that is present and nonzero; the
  order is a \<open>limit\<close> order, or a \<open>stop\<close> order with \<open>stopPrice\<close> set to the same price.
  When neither price is present and nonzero the dispatch fails with
  \<open>HTTPException 400\<close>, \<^verbatim>\<open>Price required for <order_type> orders\<close>, and places nothing.
  A dispatch with \<open>order_type\<close> \<open>market\<close> never requires a price: it goes to
  \<^verbatim>\<open>create_order\<close> without one, whatever the alert and the configuration hold.
\<close>

theorem dispatch_price_resolution:
  "(order_type cfg \<in> {''limit'', ''stop_loss'', ''take_profit''} \<longrightarrow>
      (\<forall>p. truthy (alert_price a) \<and> alert_price a = Some p
               \<or> \<not> truthy (alert_price a) \<and> truthy (price cfg) \<and> price cfg = Some p \<longrightarrow>
         dispatch lib w ex cfg a side q =
           place_order lib w ex
             \<lparr>o_symbol = symbol cfg,
              o_type = (if order_type cfg = ''limit'' then ''limit'' else ''stop''),
              o_side = side, o_amount = q, o_price = Some p,
              o_params = (if order_type cfg = ''limit'' then None
                          else Some [(''stopPrice'', p)])\<rparr>)
    \<and> (\<not> truthy (alert_price a) \<and> \<not> truthy (price cfg) \<longrightarrow>
         dispatch lib w ex cfg a side q =
           (Inl (HTTPException 400 (''Price required for '' @ order_type cfg @ '' orders'')),
            w)))
   \<and> (order_type cfg = ''market'' \<longrightarrow>
         dispatch lib w ex cfg a side q =
           place_order lib w ex
             \<lparr>o_symbol = symbol cfg, o_type = ''market'', o_side = side, o_amount = q,
              o_price = None, o_params = None\<rparr>)"
proof (intro conjI allI impI)
  fix p
  assume "order_type cfg \<in> {''limit'', ''stop_loss'', ''take_profit''}"
    and "truthy (alert_price a) \<and> alert_price a = Some p
         \<or> \<not> truthy (alert_price a) \<and> truthy (price cfg) \<and> price cfg = Some p"
  then show "dispatch lib w ex cfg a side q =
           place_order lib w ex
             \<lparr>o_symbol = symbol cfg,
              o_type = (if order_type cfg = ''limit'' then ''limit'' else ''stop''),
              o_side = side, o_amount = q, o_price = Some p,
              o_params = (if order_type cfg = ''limit'' then None
                          else Some [(''stopPrice'', p)])\<rparr>"
    by (auto simp: dispatch_def order_price_def)
next
  assume "order_type cfg \<in> {''limit'', ''stop_loss'', ''take_profit''}"
    and "\<not> truthy (alert_price a) \<and> \<not> truthy (price cfg)"
  then show "dispatch lib w ex cfg a side q =
      (Inl (HTTPException 400 (''Price required for '' @ order_type cfg @ '' orders'')), w)"
    by (cases "price cfg") (auto simp: dispatch_def order_price_def)
next
  assume "order_type cfg = ''market''"
  then show "dispatch lib w ex cfg a side q =
           place_order lib w ex
             \<lparr>o_symbol = symbol cfg, o_type = ''market'', o_side = side, o_amount = q,
              o_price = None, o_params = None\<rparr>"
    by (simp add: dispatch_def)
qed

theorem dispatch_price_resolution_witness:
  "order_type (example_config\<lparr>order_type := ''stop_loss'', price := Some 100\<rparr>)
     \<in> {''limit'', ''stop_loss'', ''take_profit''} \<and>
   dispatch example_lib (example_world example_config) example_client
       (example_config\<lparr>order_type := ''stop_loss'', price := Some 100\<rparr>)
       (example_alert\<lparr>alert_price := Some 90\<rparr>) ''buy'' (1 / 100)
     = place_order example_lib (example_world example_config) example_client
         \<lparr>o_symbol = ''BTC/USDT'', o_type = ''stop'', o_side = ''buy'', o_amount = 1 / 100,
          o_price = Some 90, o_params = Some [(''stopPrice'', 90)]\<rparr> \<and>
   dispatch example_lib (example_world example_config) example_client
       (example_config\<lparr>order_type := ''stop_loss'', price := Some 100\<rparr>)
       example_alert ''buy'' (1 / 100)
     = place_order example_lib (example_world example_config) example_client
         \<lparr>o_symbol = ''BTC/USDT'', o_type = ''stop'', o_side = ''buy'', o_amount = 1 / 100,
          o_price = Some 100, o_params = Some [(''stopPrice'', 100)]\<rparr> \<and>
   dispatch example_lib (example_world example_config) example_client
       (example_config\<lparr>order_type := ''stop_loss''\<rparr>) example_alert ''buy'' (1 / 100)
     = (Inl (HTTPException 400 ''Price required for stop_loss orders''),
        example_world example_config) \<and>
   dispatch example_lib (example_world example_config) example_client
       example_config example_alert ''buy'' (1 / 100)
     = place_order example_lib (example_world example_config) example_client
         \<lparr>o_symbol = ''BTC/USDT'', o_type = ''market'', o_side = ''buy'', o_amount = 1 / 100,
          o_price = None, o_params = None\<rparr>"
    (is "?ot \<and> ?alert \<and> ?stored \<and> ?missing \<and> ?market")
proof -
  have ot: ?ot by simp
  have alert: ?alert
    using dispatch_price_resolution
      [of "example_config\<lparr>order_type := ''stop_loss'', price := Some 100\<rparr>"
          "example_alert\<lparr>alert_price := Some 90\<rparr>" example_lib
          "example_world example_config" example_client "''buy''" "1 / 100",
       THEN conjunct1, rule_format, THEN conjunct1, rule_format, of 90]
    by (simp add: example_config_def)
  have stored: ?stored
    using dispatch_price_resolution
      [of "example_config\<lparr>order_type := ''stop_loss'', price := Some 100\<rparr>"
          example_alert example_lib
          "example_world example_config" example_client "''buy''" "1 / 100",
       THEN conjunct1, rule_format, THEN conjunct1, rule_format, of 100]
    by (simp add: example_config_def example_alert_def)
  have missing: ?missing
    using dispatch_price_resolution
      [of "example_config\<lparr>order_type := ''stop_loss''\<rparr>"
          example_alert example_lib
          "example_world example_config" example_client "''buy''" "1 / 100",
       THEN conjunct1, rule_format, THEN conjunct2, rule_format]
    by (simp add: example_config_def example_alert_def)
  have market: ?market
    using dispatch_price_resolution
      [of example_config example_alert example_lib
          "example_world example_config" example_client "''buy''" "1 / 100",
       THEN conjunct2, rule_format]
    by (simp add: example_config_def)
  from ot alert stored missing market show ?thesis by blast
qed

text \<open>
  The claim as first stated takes the alert's price whenever it is present. An alert
  price of zero is present, and the code passes it over: with a stored price of 100 the
  limit order is placed at 100.
\<close>

theorem dispatch_price_counterexample:
  "alert_price (example_alert\<lparr>alert_price := Some 0\<rparr>) = Some 0 \<and>
   dispatch example_lib (example_world example_config) example_client
       (example_config\<lparr>order_type := ''limit'', price := Some 100\<rparr>)
       (example_alert\<lparr>alert_price := Some 0\<rparr>) ''buy'' (1 / 100)
     = (Inr (Some [(''id'', ''1'')]),
        (example_world example_config)
          \<lparr>calls := [CreateOrder 0
             \<lparr>o_symbol = ''BTC/USDT'', o_type = ''limit'', o_side = ''buy'',
              o_amount = 1 / 100, o_price = Some 100, o_params = None\<rparr>]\<rparr>)"
  by (simp add: pipeline_defs example_defs)

subsection \<open>Fixed quantity\<close>

text \<open>
  C6. For every configuration whose \<open>quantity\<close> field is set and positive, quantity
  resolution returns exactly that value and leaves the state as it was: in particular
  the call log is unchanged, so neither \<^verbatim>\<open>fetch_balance\<close> nor \<^verbatim>\<open>fetch_ticker\<close> is called.
\<close>

theorem fixed_quantity_returned_without_calls:
  assumes "quantity cfg = Some q" and "0 < q"
  shows "resolve_quantity lib w ex cfg a = (Inr q, w)"
  using assms by (simp add: resolve_quantity_def determine_quantity_def)

theorem fixed_quantity_returned_without_calls_witness:
  "quantity example_config = Some (1 / 100) \<and> (0::rat) < 1 / 100 \<and>
   resolve_quantity example_lib (example_world example_config) example_client
       example_config example_alert
     = (Inr (1 / 100), example_world example_config)"
proof -
  have q: "quantity example_config = Some (1 / 100)"
    by (simp add: example_config_def)
  have pos: "(0::rat) < 1 / 100"
    by simp
  show ?thesis
    using q pos fixed_quantity_returned_without_calls [OF q pos] by simp
qed

subsection \<open>The quantity handed to dispatch\<close>

text \<open>
  C7 (as amended). For every configuration and alert, quantity resolution either returns
  a nonzero quantity, which may be negative, or fails; it never yields a zero quantity to
  the dispatch step. It fails with \<open>HTTPException 400\<close>,
  \<^verbatim>\<open>Could not determine order quantity\<close>, exactly when the fixed quantity is unset or zero
  and the percentage is unset or zero or the percentage computation yields zero. (It can
  also fail with the errors of the percentage computation.)
\<close>

theorem resolved_quantity_nonzero:
  "(\<forall>q w'. resolve_quantity lib w ex cfg a = (Inr q, w') \<longrightarrow> q \<noteq> 0)
   \<and> (fst (resolve_quantity lib w ex cfg a)
          = Inl (HTTPException 400 ''Could not determine order quantity'')
        \<longleftrightarrow> \<not> truthy (quantity cfg)
            \<and> (\<not> truthy (quantity_percentage cfg)
                 \<or> (\<exists>pct. quantity_percentage cfg = Some pct
                        \<and> fst (percentage_quantity lib w ex cfg a pct) = Inr 0)))"
proof (intro conjI allI impI)
  fix q w'
  assume "resolve_quantity lib w ex cfg a = (Inr q, w')"
  then show "q \<noteq> 0"
    by (auto simp: resolve_quantity_def split: prod.splits sum.splits option.splits if_splits)
next
  have no_clash: "fst (percentage_quantity lib w ex cfg a pct)
      \<noteq> Inl (HTTPException 400 ''Could not determine order quantity'')" for pct
    by (auto simp: percentage_quantity_def current_price_def ticker_last_def float_def Let_def
             split: sum.splits list.splits option.splits prod.splits if_splits)
  show "fst (resolve_quantity lib w ex cfg a)
          = Inl (HTTPException 400 ''Could not determine order quantity'')
        \<longleftrightarrow> \<not> truthy (quantity cfg)
            \<and> (\<not> truthy (quantity_percentage cfg)
                 \<or> (\<exists>pct. quantity_percentage cfg = Some pct
                        \<and> fst (percentage_quantity lib w ex cfg a pct) = Inr 0))"
  proof (cases "truthy (quantity cfg)")
    case True
    then show ?thesis
      by (cases "quantity cfg") (simp_all add: resolve_quantity_def determine_quantity_def)
  next
    case False
    show ?thesis
    proof (cases "quantity_percentage cfg")
      case None
      with False show ?thesis
        by (simp add: resolve_quantity_def determine_quantity_def)
    next
      case (Some pct)
      show ?thesis
      proof (cases "pct = 0")
        case True
        with False Some show ?thesis
          by (simp add: resolve_quantity_def determine_quantity_def)
      next
        case nz: False
        obtain r w' where pq: "percentage_quantity lib w ex cfg a pct = (r, w')"
          by (cases "percentage_quantity lib w ex cfg a pct")
        with no_clash [of pct]
        have "r \<noteq> Inl (HTTPException 400 ''Could not determine order quantity'')"
          by simp
        with False Some nz pq show ?thesis
          by (cases r) (simp_all add: resolve_quantity_def determine_quantity_def)
      qed
    qed
  qed
qed

theorem resolved_quantity_nonzero_witness:
  "resolve_quantity example_lib (example_world pct_config) example_client pct_config
       example_alert
     = (Inr (1 / 500),
        (example_world pct_config)
          \<lparr>calls := [FetchBalance 0, FetchTicker 0 ''BTC/USDT'']\<rparr>) \<and>
   (1 / 500 :: rat) \<noteq> 0 \<and>
   \<not> truthy (quantity (example_config\<lparr>quantity := Some 0\<rparr>)) \<and>
   \<not> truthy (quantity_percentage (example_config\<lparr>quantity := Some 0\<rparr>)) \<and>
   fst (resolve_quantity example_lib (example_world example_config) example_client
          (example_config\<lparr>quantity := Some 0\<rparr>) example_alert)
     = Inl (HTTPException 400 ''Could not determine order quantity'')"
    (is "?res \<and> ?nz \<and> ?noq \<and> ?nop \<and> ?fails")
proof -
  have res: ?res
    by (simp add: pipeline_defs example_defs pct_config_def)
  have nz: ?nz
    using resolved_quantity_nonzero [THEN conjunct1, rule_format, OF res] .
  have noq: ?noq and nop: ?nop
    by (simp_all add: example_config_def)
  have fails: ?fails
    using noq nop
      resolved_quantity_nonzero
        [of example_lib "example_world example_config" example_client
            "example_config\<lparr>quantity := Some 0\<rparr>" example_alert, THEN conjunct2]
    by blast
  from res nz noq nop fails show ?thesis by blast
qed

text \<open>
  The claim as first stated, that the quantity handed to dispatch is positive, fails for
  a stored fixed quantity of \<open>- 1\<close>: resolution returns it, and the handler places a market
  order for the amount \<open>- 1\<close>.
\<close>

theorem resolved_quantity_counterexample:
  "resolve_quantity example_lib (example_world (example_config\<lparr>quantity := Some (- 1)\<rparr>))
       example_client (example_config\<lparr>quantity := Some (- 1)\<rparr>) example_alert
     = (Inr (- 1), example_world (example_config\<lparr>quantity := Some (- 1)\<rparr>)) \<and>
   (- 1 :: rat) < 0 \<and>
   calls (snd (process_tradingview_alert example_lib
                 (example_world (example_config\<lparr>quantity := Some (- 1)\<rparr>))
                 example_alert ''t1''))
     = [CreateOrder 0
          \<lparr>o_symbol = ''BTC/USDT'', o_type = ''market'', o_side = ''buy'', o_amount = - 1,
           o_price = None, o_params = None\<rparr>]"
  by (simp add: pipeline_defs example_defs)

subsection \<open>Repeated alerts\<close>




subsection \<open>The client cache\<close>



subsection \<open>The price field of the success record\<close>

text \<open>
  C10. Whenever the handler returns a success result, the history record it wrote under
  the alert's key is a success record whose \<open>price\<close> field is the alert's price, absent
  when the alert carries none; the price the order was placed at does not enter the
  record. (In the example below a limit order is placed at the stored price of 100 and
  the record's price is absent.)
\<close>

theorem success_history_price_is_alert_price:
  assumes "process_tradingview_alert lib w a now = (Inr r, w')" and "success r"
  shows "\<exists>h. history w' (alert_id (user_id a) now) = Some (SuccessRecord h)
             \<and> h_price h = alert_price a"
proof -
  from assms have tb: "try_block lib w a now = (Inr r, w')"
    by (rule handler_success)
  from try_block_success [OF tb] show ?thesis
    by (auto simp: save_alert_history_def history_timestamp_def)
qed

theorem success_history_price_is_alert_price_witness:
  "process_tradingview_alert example_lib (example_world limit_config) example_alert ''t1''
     = (Inr \<lparr>success = True, order_id = Some ''1'',
               message = Some ''Order executed successfully'',
               details = Some [(''id'', ''1'')], timestamp = ''t1''\<rparr>,
        (example_world limit_config)
          \<lparr>exchange_clients := [client_key ''u1'' ''binance'' \<mapsto> example_client],
           constructed := 1,
           calls := [CreateOrder 0
              \<lparr>o_symbol = ''BTC/USDT'', o_type = ''limit'', o_side = ''buy'',
               o_amount = 1 / 100, o_price = Some 100, o_params = None\<rparr>],
           history := [alert_id ''u1'' ''t1'' \<mapsto> SuccessRecord
              \<lparr>h_config_name = ''c1'', h_symbol = ''BTC/USDT'', h_side = ''buy'',
               h_quantity = 1 / 100, h_price = None, h_timestamp = ''t1'', h_success = True,
               h_order_id = Some ''1'', h_details = Some [(''id'', ''1'')]\<rparr>]\<rparr>) \<and>
   (\<exists>h. history
          ((example_world limit_config)
          \<lparr>exchange_clients := [client_key ''u1'' ''binance'' \<mapsto> example_client],
           constructed := 1,
           calls := [CreateOrder 0
              \<lparr>o_symbol = ''BTC/USDT'', o_type = ''limit'', o_side = ''buy'',
               o_amount = 1 / 100, o_price = Some 100, o_params = None\<rparr>],
           history := [alert_id ''u1'' ''t1'' \<mapsto> SuccessRecord
              \<lparr>h_config_name = ''c1'', h_symbol = ''BTC/USDT'', h_side = ''buy'',
               h_quantity = 1 / 100, h_price = None, h_timestamp = ''t1'', h_success = True,
               h_order_id = Some ''1'', h_details = Some [(''id'', ''1'')]\<rparr>]\<rparr>)
          (alert_id (user_id example_alert) ''t1'') = Some (SuccessRecord h)
        \<and> h_price h = alert_price example_alert)"
    (is "?run \<and> ?rec")
proof -
  have run: ?run
    by (simp add: pipeline_defs example_defs limit_config_def)
  have rec: ?rec
    by (rule success_history_price_is_alert_price [OF run]) simp
  from run rec show ?thesis ..
qed

end
